theory Spec2Isabelle
  imports Complex_Main
begin

section \<open>The DeformingPlate model of meshgraphnets/cloth\_model.py\<close>

text \<open>
  The module wraps a learned graph network: \<open>_build_graph\<close> turns a mesh record into
  a normalized graph, \<open>_build\<close> (Predict) integrates the network output as a
  displacement, and \<open>loss\<close> is the masked L2 loss on the normalized displacement.

  Conventions of the embedding.
  \<^item> A rank-2 float tensor is a list of rows over \<open>real\<close>; an integer tensor is a list
    of rows (or a list) over \<open>int\<close>. Rounding of float32 arithmetic is not modelled.
    The one value of the float domain that the real numbers lack and that this module
    can produce by itself, the mean of an empty selection, is the explicit \<open>NaN\<close>.
  \<^item> The program is read as the sequential Python it is written as: each TensorFlow
    call is applied to concrete tensors, in source order.
  \<^item> A failure of a TensorFlow call or of a dictionary lookup is a value \<open>Inl e\<close>.
    Every method returns its result together with the model afterwards. On a call that
    fails after a normalizer has run, the model returned is the one with the statistics
    already written; this is the reading of the source as a sequential program, whereas a
    TensorFlow 1 graph that fails while it is built has run nothing. The properties below
    read the model only after calls that return, or after Predict, which writes nothing
    in either reading.
  \<^item> The modules \<open>common\<close>, \<open>core_model\<close> and \<open>normalization\<close> are imported by the
    source but are not part of it. What the source takes from them is a parameter of
    the embedding (record \<open>modules\<close>), and the calling protocol of the normalizer is
    modelled from the specification.
\<close>

subsection \<open>Tensors and the TensorFlow calls the module makes\<close>

type_synonym tensor = "real list list"

datatype error = KeyError | InvalidArgumentError

datatype scalar = Finite real | NaN

text \<open>\<open>tf.zeros_like(t)\<close>: zeros of the shape of \<open>t\<close>.\<close>

definition tf_zeros_like :: "tensor \<Rightarrow> tensor" where
  "tf_zeros_like t = map (map (\<lambda>_. 0)) t"

text \<open>\<open>t[:, 0]\<close> on a rank-2 integer tensor: the first column. A tensor with rows but
  no column has no index 0 on its second axis.\<close>

definition column0 :: "int list list \<Rightarrow> error + int list" where
  "column0 t = (if list_all (\<lambda>row. row \<noteq> []) t then Inr (map hd t)
                else Inl InvalidArgumentError)"

text \<open>\<open>tf.one_hot(indices, depth)\<close>: row \<open>i\<close> has a one at position \<open>indices[i]\<close> and
  zeros elsewhere; an index outside \<open>[0, depth)\<close> gives a row of zeros.\<close>

definition tf_one_hot :: "int list \<Rightarrow> nat \<Rightarrow> tensor" where
  "tf_one_hot indices depth =
     map (\<lambda>i. map (\<lambda>j. if int j = i then 1 else 0) [0..<depth]) indices"

text \<open>\<open>tf.concat(ts, axis=-1)\<close> on rank-2 tensors: rows are joined pairwise; the
  tensors must agree on the number of rows.\<close>

fun concat_rows :: "tensor list \<Rightarrow> tensor" where
  "concat_rows [] = []"
| "concat_rows [t] = t"
| "concat_rows (t # ts) = map2 (@) t (concat_rows ts)"

definition tf_concat :: "tensor list \<Rightarrow> error + tensor" where
  "tf_concat ts =
     (if ts \<noteq> [] \<and> list_all (\<lambda>t. length t = length (hd ts)) ts
      then Inr (concat_rows ts) else Inl InvalidArgumentError)"

text \<open>\<open>tf.gather(params, indices)\<close> along axis 0. An index outside
  \<open>[0, len(params))\<close> is an error (the CPU kernel's behaviour).\<close>

definition tf_gather :: "tensor \<Rightarrow> int list \<Rightarrow> error + tensor" where
  "tf_gather params indices =
     (if list_all (\<lambda>i. 0 \<le> i \<and> i < int (length params)) indices
      then Inr (map (\<lambda>i. params ! nat i) indices)
      else Inl InvalidArgumentError)"

text \<open>Elementwise \<open>a - b\<close> and \<open>a + b\<close>. The interface gives both operands the same
  shape; operands of different shapes are rejected here (broadcasting is not
  modelled).\<close>

definition same_shape :: "tensor \<Rightarrow> tensor \<Rightarrow> bool" where
  "same_shape a b = (map length a = map length b)"

definition tf_subtract :: "tensor \<Rightarrow> tensor \<Rightarrow> error + tensor" where
  "tf_subtract a b =
     (if same_shape a b then Inr (map2 (map2 (-)) a b) else Inl InvalidArgumentError)"

definition tf_add :: "tensor \<Rightarrow> tensor \<Rightarrow> error + tensor" where
  "tf_add a b =
     (if same_shape a b then Inr (map2 (map2 (+)) a b) else Inl InvalidArgumentError)"

text \<open>\<open>tf.norm(t, axis=-1, keepdims=True)\<close>: the Euclidean norm of each row, kept as
  a column.\<close>

definition tf_norm :: "tensor \<Rightarrow> tensor" where
  "tf_norm t = map (\<lambda>row. [sqrt (sum_list (map (\<lambda>x. x\<^sup>2) row))]) t"

text \<open>\<open>t ** 2\<close>, \<open>tf.reduce_sum(t, axis=1)\<close>, \<open>tf.equal(v, c)\<close>.\<close>

definition tf_square :: "tensor \<Rightarrow> tensor" where
  "tf_square t = map (map (\<lambda>x. x\<^sup>2)) t"

definition tf_reduce_sum :: "tensor \<Rightarrow> real list" where
  "tf_reduce_sum t = map sum_list t"

definition tf_equal :: "int list \<Rightarrow> int \<Rightarrow> bool list" where
  "tf_equal v c = map (\<lambda>x. x = c) v"

text \<open>\<open>v[mask]\<close> with a boolean mask of the same length: the entries at which the
  mask holds, in order.\<close>

definition boolean_mask :: "real list \<Rightarrow> bool list \<Rightarrow> error + real list" where
  "boolean_mask v bmask =
     (if length v = length bmask then Inr (map fst (filter snd (zip v bmask)))
      else Inl InvalidArgumentError)"

text \<open>\<open>tf.reduce_mean(v)\<close>: the sum over the count; over no entries this is \<open>0 / 0\<close>,
  which TensorFlow returns as NaN.\<close>

definition tf_reduce_mean :: "real list \<Rightarrow> scalar" where
  "tf_reduce_mean v = (if v = [] then NaN else Finite (sum_list v / real (length v)))"

subsection \<open>Data\<close>

text \<open>The input dictionary. Its keys are fixed by the data set; \<open>target|world_pos\<close>
  is present in training records only, so that a lookup of it can fail.\<close>

record inputs =
  world_pos :: tensor
  mesh_pos :: tensor
  node_type :: "int list list"
  cells :: "int list list"
  target_world_pos :: "tensor option"

text \<open>\<open>core_model.EdgeSet\<close> and \<open>core_model.MultiGraph\<close>, with the fields the source
  fills.\<close>

record EdgeSet =
  name :: string
  features :: tensor
  receivers :: "int list"
  senders :: "int list"

record MultiGraph =
  node_features :: tensor
  edge_sets :: "EdgeSet list"

text \<open>The running statistics of one normalizer.\<close>

record statistics =
  mean :: "real list"
  variance :: "real list"
  count :: real

text \<open>What the source imports and this development takes as given: the two members
  of \<open>common.NodeType\<close> it reads, the mesh-to-edge converter, and the arithmetic of the
  normalizer (the forward transform that consumes its batch into the statistics, the
  forward transform on frozen statistics, and the inverse transform).\<close>

record modules =
  NodeType_NORMAL :: int
  NodeType_SIZE :: nat
  triangles_to_edges :: "int list list \<Rightarrow> int list \<times> int list"
  accumulate_and_normalize :: "statistics \<Rightarrow> tensor \<Rightarrow> statistics \<times> tensor"
  normalize_frozen :: "statistics \<Rightarrow> tensor \<Rightarrow> tensor"
  Normalizer_inverse :: "statistics \<Rightarrow> tensor \<Rightarrow> tensor"

text \<open>The fields of \<open>Model\<close>: the learned network handed to \<open>__init__\<close> and the three
  normalizers it creates.\<close>

record Model =
  learned_model :: "MultiGraph \<Rightarrow> tensor"
  output_normalizer :: statistics
  node_normalizer :: statistics
  edge_normalizer :: statistics

subsection \<open>The normalizer's call protocol\<close>

text \<open>Modelled from the spec: the class \<open>normalization.Normalizer\<close> is not among the
  sources. The specification gives its contract as
  \<open>forward(features, accumulate: bool) \<rightarrow> normalized\<close> and \<open>inverse(normalized) \<rightarrow> raw\<close>;
  its statistics are "mutated only when invoked in training mode; read (without
  mutation) otherwise", and a call that passes no flag "always accumulates". The
  second argument is therefore optional with default \<open>True\<close>.\<close>

definition Normalizer_call ::
  "modules \<Rightarrow> statistics \<Rightarrow> tensor \<Rightarrow> bool option \<Rightarrow> statistics \<times> tensor" where
  "Normalizer_call E st batched_data accumulate =
     (if (case accumulate of None \<Rightarrow> True | Some b \<Rightarrow> b)
      then accumulate_and_normalize E st batched_data
      else (st, normalize_frozen E st batched_data))"

subsection \<open>The graph builder\<close>

text \<open>Lines 48 to 51 of \<open>_build_graph\<close>: the node features before normalization.\<close>

definition node_features_raw :: "modules \<Rightarrow> inputs \<Rightarrow> error + tensor" where
  "node_features_raw E inp =
     (let velocity = tf_zeros_like (world_pos inp) in
      case column0 (node_type inp) of
        Inl e \<Rightarrow> Inl e
      | Inr col \<Rightarrow>
          (let one_hot_type = tf_one_hot col (NodeType_SIZE E)
           in tf_concat [velocity, one_hot_type]))"

text \<open>Lines 55 to 62: the edge features before normalization, for the index arrays
  the converter returned.\<close>

definition relative_pos :: "tensor \<Rightarrow> int list \<Rightarrow> int list \<Rightarrow> error + tensor" where
  "relative_pos pos snd_idx rcv_idx =
     (case tf_gather pos snd_idx of
        Inl e \<Rightarrow> Inl e
      | Inr a \<Rightarrow>
          (case tf_gather pos rcv_idx of
             Inl e \<Rightarrow> Inl e
           | Inr b \<Rightarrow> tf_subtract a b))"

definition edge_features_raw :: "inputs \<Rightarrow> int list \<Rightarrow> int list \<Rightarrow> error + tensor" where
  "edge_features_raw inp snd_idx rcv_idx =
     (case relative_pos (world_pos inp) snd_idx rcv_idx of
        Inl e \<Rightarrow> Inl e
      | Inr relative_world_pos \<Rightarrow>
          (case relative_pos (mesh_pos inp) snd_idx rcv_idx of
             Inl e \<Rightarrow> Inl e
           | Inr relative_mesh_pos \<Rightarrow>
               tf_concat [relative_world_pos, tf_norm relative_world_pos,
                          relative_mesh_pos, tf_norm relative_mesh_pos]))"

text \<open>\<open>_build_graph(inputs, is_training)\<close>. The edge normalizer is called before the
  node normalizer, as in the source; both receive \<open>is_training\<close>.\<close>

definition build_graph ::
  "modules \<Rightarrow> Model \<Rightarrow> inputs \<Rightarrow> bool \<Rightarrow> (error + MultiGraph) \<times> Model" where
  "build_graph E M inp is_training =
     (case node_features_raw E inp of
        Inl e \<Rightarrow> (Inl e, M)
      | Inr nf \<Rightarrow>
          (let (snd_idx, rcv_idx) = triangles_to_edges E (cells inp) in
           case edge_features_raw inp snd_idx rcv_idx of
             Inl e \<Rightarrow> (Inl e, M)
           | Inr ef \<Rightarrow>
               (let (est, efn) = Normalizer_call E (edge_normalizer M) ef (Some is_training);
                    M1 = M\<lparr>edge_normalizer := est\<rparr>;
                    mesh_edges = \<lparr>name = ''mesh_edges'', features = efn,
                                  receivers = rcv_idx, senders = snd_idx\<rparr>;
                    (nst, nfn) = Normalizer_call E (node_normalizer M1) nf (Some is_training);
                    M2 = M1\<lparr>node_normalizer := nst\<rparr>
                in (Inr \<lparr>node_features = nfn, edge_sets = [mesh_edges]\<rparr>, M2))))"

subsection \<open>Update, Predict and Loss\<close>

text \<open>\<open>_update(inputs, per_node_network_output)\<close>.\<close>

definition update :: "modules \<Rightarrow> Model \<Rightarrow> inputs \<Rightarrow> tensor \<Rightarrow> error + tensor" where
  "update E M inp per_node_network_output =
     (let displacement = Normalizer_inverse E (output_normalizer M) per_node_network_output;
          cur_position = world_pos inp
      in tf_add cur_position displacement)"

text \<open>\<open>_build(inputs)\<close>, the module's call: Predict.\<close>

definition build :: "modules \<Rightarrow> Model \<Rightarrow> inputs \<Rightarrow> (error + tensor) \<times> Model" where
  "build E M inp =
     (case build_graph E M inp False of
        (Inl e, M1) \<Rightarrow> (Inl e, M1)
      | (Inr graph, M1) \<Rightarrow>
          (let per_node_network_output = learned_model M1 graph
           in (update E M1 inp per_node_network_output, M1)))"

text \<open>\<open>loss(inputs)\<close>.\<close>

definition loss :: "modules \<Rightarrow> Model \<Rightarrow> inputs \<Rightarrow> (error + scalar) \<times> Model" where
  "loss E M inp =
     (case build_graph E M inp True of
        (Inl e, M1) \<Rightarrow> (Inl e, M1)
      | (Inr graph, M1) \<Rightarrow>
          (let network_output = learned_model M1 graph;
               cur_position = world_pos inp
           in case target_world_pos inp of
                None \<Rightarrow> (Inl KeyError, M1)
              | Some target_position \<Rightarrow>
                  (case tf_subtract target_position cur_position of
                     Inl e \<Rightarrow> (Inl e, M1)
                   | Inr target_displacement \<Rightarrow>
                       (let (ost, target_normalized) =
                              Normalizer_call E (output_normalizer M1) target_displacement None;
                            M2 = M1\<lparr>output_normalizer := ost\<rparr>
                        in case column0 (node_type inp) of
                             Inl e \<Rightarrow> (Inl e, M2)
                           | Inr col \<Rightarrow>
                               (let loss_mask = tf_equal col (NodeType_NORMAL E)
                                in case tf_subtract target_normalized network_output of
                                     Inl e \<Rightarrow> (Inl e, M2)
                                   | Inr diff \<Rightarrow>
                                       (let err = tf_reduce_sum (tf_square diff)
                                        in case boolean_mask err loss_mask of
                                             Inl e \<Rightarrow> (Inl e, M2)
                                           | Inr selected \<Rightarrow>
                                               (Inr (tf_reduce_mean selected), M2)))))))"

subsection \<open>Shapes and the input contract\<close>

text \<open>\<open>has_shape n k t\<close>: the tensor \<open>t\<close> has shape \<open>[n, k]\<close>.\<close>

definition has_shape :: "nat \<Rightarrow> nat \<Rightarrow> 'a list list \<Rightarrow> bool" where
  "has_shape n k t = (length t = n \<and> list_all (\<lambda>row. length row = k) t)"

text \<open>The contract of the interface on an input record: \<open>world_pos\<close> and \<open>mesh_pos\<close> have
  shape \<open>[num_nodes, 3]\<close>, \<open>node_type\<close> has one row per node and at least one column, and
  the converter returns, for the record's \<open>cells\<close>, as many senders as receivers, all of
  them node indices. On a record outside this contract a call inside \<open>build_graph\<close> may
  fail (see \<open>tf_gather\<close>, \<open>tf_subtract\<close>, \<open>tf_concat\<close>, \<open>column0\<close>).\<close>

definition well_formed :: "modules \<Rightarrow> inputs \<Rightarrow> bool" where
  "well_formed E inp =
     (let n = length (world_pos inp); (s, r) = triangles_to_edges E (cells inp)
      in has_shape n 3 (world_pos inp) \<and> has_shape n 3 (mesh_pos inp) \<and>
         length (node_type inp) = n \<and> list_all (\<lambda>row. row \<noteq> []) (node_type inp) \<and>
         length s = length r \<and>
         list_all (\<lambda>i. 0 \<le> i \<and> i < int n) s \<and> list_all (\<lambda>i. 0 \<le> i \<and> i < int n) r)"

subsection \<open>What the features and the loss are claimed to be\<close>

text \<open>Row of \<open>edge_features_raw\<close> for sender \<open>i\<close> and receiver \<open>j\<close>, for rows of any
  width: the difference of the world positions, its norm, the difference of the mesh
  positions, its norm.\<close>

definition edge_row :: "inputs \<Rightarrow> int \<Rightarrow> int \<Rightarrow> real list" where
  "edge_row inp i j =
     (let dw = map2 (-) (world_pos inp ! nat i) (world_pos inp ! nat j);
          dm = map2 (-) (mesh_pos inp ! nat i) (mesh_pos inp ! nat j)
      in dw @ [sqrt (sum_list (map (\<lambda>x. x\<^sup>2) dw))] @ dm @ [sqrt (sum_list (map (\<lambda>x. x\<^sup>2) dm))])"

text \<open>The edge feature vector in the words of the specification, for positions with three
  components: eight scalars, written out.\<close>

definition edge_vector_spec :: "tensor \<Rightarrow> tensor \<Rightarrow> nat \<Rightarrow> nat \<Rightarrow> real list" where
  "edge_vector_spec wp mp s r =
     (let dw = (\<lambda>c. wp ! s ! c - wp ! r ! c);
          dm = (\<lambda>c. mp ! s ! c - mp ! r ! c)
      in [dw 0, dw 1, dw 2, sqrt ((dw 0)\<^sup>2 + (dw 1)\<^sup>2 + (dw 2)\<^sup>2),
          dm 0, dm 1, dm 2, sqrt ((dm 0)\<^sup>2 + (dm 1)\<^sup>2 + (dm 2)\<^sup>2)])"

text \<open>The loss in the words of the specification: the mean, over the nodes whose first
  \<open>node_type\<close> column is the normal category, of the squared error summed over the three
  components; NaN when no node qualifies.\<close>

definition masked_mean_squared_error :: "int \<Rightarrow> int list list \<Rightarrow> tensor \<Rightarrow> tensor \<Rightarrow> scalar" where
  "masked_mean_squared_error normal ntype target_normalized network_output =
     (let nodes = filter (\<lambda>i. hd (ntype ! i) = normal) [0..<length ntype];
          per_node = (\<lambda>i. \<Sum>c\<leftarrow>[0..<3]. (target_normalized ! i ! c - network_output ! i ! c)\<^sup>2)
      in if nodes = [] then NaN
         else Finite (sum_list (map per_node nodes) / real (length nodes)))"

subsection \<open>A concrete mesh\<close>

text \<open>One triangle with the nodes \<open>(0,0,0)\<close>, \<open>(3,4,0)\<close> and \<open>(0,1,0)\<close>, the last of which is
  not a normal node. The collaborators are small stand-ins: the converter lists the three
  sides of every triangle in both directions, the normalizer halves its input and counts
  the rows it has accumulated, and the learned network reads the one-hot part of the node
  features. They serve to evaluate the definitions above on an input.\<close>

definition example_modules :: modules where
  "example_modules =
     \<lparr>NodeType_NORMAL = 0, NodeType_SIZE = 9,
      triangles_to_edges =
        (\<lambda>faces. let e = concat (map (\<lambda>c. [(c ! 0, c ! 1), (c ! 1, c ! 2), (c ! 2, c ! 0)]) faces)
                 in (map fst e @ map snd e, map snd e @ map fst e)),
      accumulate_and_normalize =
        (\<lambda>st x. (st\<lparr>count := count st + real (length x)\<rparr>, map (map (\<lambda>v. v / 2)) x)),
      normalize_frozen = (\<lambda>st x. map (map (\<lambda>v. v / 2)) x),
      Normalizer_inverse = (\<lambda>st x. map (map (\<lambda>v. 2 * v)) x)\<rparr>"

definition example_statistics :: statistics where
  "example_statistics = \<lparr>mean = [], variance = [], count = 0\<rparr>"

definition example_model :: Model where
  "example_model =
     \<lparr>learned_model = (\<lambda>g. map (\<lambda>row. [row ! 3, row ! 4, 1]) (node_features g)),
      output_normalizer = example_statistics,
      node_normalizer = example_statistics,
      edge_normalizer = example_statistics\<rparr>"

definition example_inputs :: inputs where
  "example_inputs =
     \<lparr>world_pos = [[0, 0, 0], [3, 4, 0], [0, 1, 0]],
      mesh_pos = [[0, 0, 0], [1, 0, 0], [0, 1, 0]],
      node_type = [[0], [0], [1]],
      cells = [[0, 1, 2]],
      target_world_pos = Some [[0, 0, 1], [3, 4, 1], [0, 1, 0]]\<rparr>"

text \<open>The same mesh with no normal node.\<close>

definition example_inputs_no_normal :: inputs where
  "example_inputs_no_normal = example_inputs\<lparr>node_type := [[1], [1], [3]]\<rparr>"

section \<open>Properties\<close>

subsection \<open>The TensorFlow calls\<close>

lemma tf_gather_Inr:
  assumes "tf_gather p idx = Inr a"
  shows "a = map (\<lambda>i. p ! nat i) idx" and "list_all (\<lambda>i. 0 \<le> i \<and> i < int (length p)) idx"
  using assms by (auto simp: tf_gather_def split: if_splits)

lemma tf_gather_ok:
  "list_all (\<lambda>i. 0 \<le> i \<and> i < int (length p)) idx \<Longrightarrow> tf_gather p idx = Inr (map (\<lambda>i. p ! nat i) idx)"
  by (simp add: tf_gather_def)

lemma tf_subtract_Inr:
  assumes "tf_subtract a b = Inr c"
  shows "c = map2 (map2 (-)) a b" and "length a = length b"
  using assms by (auto simp: tf_subtract_def same_shape_def split: if_splits dest: map_eq_imp_length_eq)

lemma tf_concat_Inr:
  assumes "tf_concat ts = Inr t"
  shows "t = concat_rows ts" and "list_all (\<lambda>u. length u = length (hd ts)) ts"
  using assms by (auto simp: tf_concat_def split: if_splits)

lemma has_shape_nth: "has_shape n k t \<Longrightarrow> i < n \<Longrightarrow> length (t ! i) = k"
  by (auto simp: has_shape_def list_all_length)

lemma has_shape_length: "has_shape n k t \<Longrightarrow> length t = n"
  by (simp add: has_shape_def)

lemma same_shape_has_shape: "has_shape n k a \<Longrightarrow> has_shape n k b \<Longrightarrow> same_shape a b"
  by (auto simp: has_shape_def same_shape_def list_all_length intro!: nth_equalityI)

lemma has_shape_map2: "has_shape n k a \<Longrightarrow> has_shape n k b \<Longrightarrow> has_shape n k (map2 (map2 f) a b)"
  by (auto simp: has_shape_def list_all_length)

lemma tf_add_rows:
  "has_shape n k a \<Longrightarrow> has_shape n k b \<Longrightarrow> tf_add a b = Inr (map2 (map2 (+)) a b)"
  by (simp add: tf_add_def same_shape_has_shape)

lemma valid_index:
  "list_all (\<lambda>i. 0 \<le> i \<and> i < int n) s \<Longrightarrow> k < length s \<Longrightarrow> nat (s ! k) < n"
  by (auto simp: list_all_length)

lemma upt3: "[0..<3] = [0, 1, 2]"
  by (simp add: numeral_3_eq_3)

lemma sq_row3:
  assumes "length (a::real list) = 3" "length b = 3"
  shows "sum_list (map (\<lambda>x. x\<^sup>2) (map2 (-) a b)) = (\<Sum>c\<leftarrow>[0..<3]. (a ! c - b ! c)\<^sup>2)"
proof -
  from assms obtain a0 a1 a2 b0 b1 b2 where "a = [a0, a1, a2]" "b = [b0, b1, b2]"
    by (auto simp: numeral_3_eq_3 length_Suc_conv)
  then show ?thesis by (simp add: upt3)
qed

lemma mask_index:
  "length v = length b \<Longrightarrow>
     map fst (filter snd (zip v b)) = map (\<lambda>i. v ! i) (filter (\<lambda>i. b ! i) [0..<length v])"
proof (induction v arbitrary: b rule: rev_induct)
  case Nil
  then show ?case by simp
next
  case (snoc x xs)
  then obtain c cs where b: "b = cs @ [c]" and l: "length xs = length cs"
    by (cases b rule: rev_cases) auto
  define n where "n = length xs"
  define g where "g = (\<lambda>i. (xs @ [x]) ! i)"
  define P where "P = (\<lambda>i. (cs @ [c]) ! i)"
  have lc: "length cs = n" using l n_def by simp
  have f: "filter P [0..<n] = filter (\<lambda>i. cs ! i) [0..<n]"
    unfolding P_def using lc by (intro filter_cong) (auto simp: nth_append)
  have m: "map g (filter (\<lambda>i. cs ! i) [0..<n]) = map (\<lambda>i. xs ! i) (filter (\<lambda>i. cs ! i) [0..<n])"
    unfolding g_def using n_def by (intro map_cong) (auto simp: nth_append)
  have ih: "map fst (filter snd (zip xs cs)) = map (\<lambda>i. xs ! i) (filter (\<lambda>i. cs ! i) [0..<n])"
    using snoc.IH[OF l] n_def by simp
  have last: "g n = x" "P n = c"
    unfolding g_def P_def using n_def lc by (simp_all add: nth_append)
  have "map fst (filter snd (zip (xs @ [x]) (cs @ [c]))) =
        map fst (filter snd (zip xs cs)) @ (if c then [x] else [])"
    using l by simp
  also have "\<dots> = map g (filter P [0..<n]) @ (if P n then [g n] else [])"
    by (simp only: ih last f m)
  also have "\<dots> = map g (filter P ([0..<n] @ [n]))"
    by simp
  also have "[0..<n] @ [n] = [0..<length (xs @ [x])]"
    using n_def by simp
  finally show ?case unfolding b g_def P_def .
qed

lemma masked_loss:
  assumes tn: "has_shape n 3 tn" and out: "has_shape n 3 out" and nt: "length col = n"
  shows "boolean_mask (tf_reduce_sum (tf_square (map2 (map2 (-)) tn out))) (tf_equal col c) =
     Inr (map (\<lambda>i. \<Sum>k\<leftarrow>[0..<3]. (tn ! i ! k - out ! i ! k)\<^sup>2) (filter (\<lambda>i. col ! i = c) [0..<n]))"
proof -
  let ?v = "tf_reduce_sum (tf_square (map2 (map2 (-)) tn out))"
  let ?b = "tf_equal col c"
  have ln: "length tn = n" "length out = n" using tn out by (simp_all add: has_shape_def)
  have lv: "length ?v = n" using ln by (simp add: tf_reduce_sum_def tf_square_def)
  have lb: "length ?b = n" using nt by (simp add: tf_equal_def)
  have v: "?v ! i = (\<Sum>k\<leftarrow>[0..<3]. (tn ! i ! k - out ! i ! k)\<^sup>2)" if i: "i < n" for i
  proof -
    have "?v ! i = sum_list (map (\<lambda>x. x\<^sup>2) (map2 (-) (tn ! i) (out ! i)))"
      using ln i by (simp add: tf_reduce_sum_def tf_square_def)
    also have "\<dots> = (\<Sum>k\<leftarrow>[0..<3]. (tn ! i ! k - out ! i ! k)\<^sup>2)"
      using has_shape_nth[OF tn i] has_shape_nth[OF out i] by (rule sq_row3)
    finally show ?thesis .
  qed
  have b: "\<And>i. i < n \<Longrightarrow> ?b ! i = (col ! i = c)"
    using nt by (simp add: tf_equal_def)
  have "boolean_mask ?v ?b = Inr (map (\<lambda>i. ?v ! i) (filter (\<lambda>i. ?b ! i) [0..<n]))"
    using lv lb mask_index[of ?v ?b] by (simp add: boolean_mask_def)
  also have "filter (\<lambda>i. ?b ! i) [0..<n] = filter (\<lambda>i. col ! i = c) [0..<n]"
    by (intro filter_cong) (auto simp: b)
  also have "map (\<lambda>i. ?v ! i) (filter (\<lambda>i. col ! i = c) [0..<n]) =
      map (\<lambda>i. \<Sum>k\<leftarrow>[0..<3]. (tn ! i ! k - out ! i ! k)\<^sup>2) (filter (\<lambda>i. col ! i = c) [0..<n])"
    by (intro map_cong) (auto simp: v)
  finally show ?thesis .
qed

subsection \<open>The graph builder\<close>

lemma relative_pos_Inr:
  assumes "relative_pos p s r = Inr d"
  shows "length r = length s" and "length d = length s"
    and "k < length s \<Longrightarrow> d ! k = map2 (-) (p ! nat (s ! k)) (p ! nat (r ! k))"
    and "list_all (\<lambda>i. 0 \<le> i \<and> i < int (length p)) s"
    and "list_all (\<lambda>i. 0 \<le> i \<and> i < int (length p)) r"
proof -
  from assms obtain a b where a: "tf_gather p s = Inr a" and b: "tf_gather p r = Inr b"
    and d: "tf_subtract a b = Inr d"
    by (auto simp: relative_pos_def split: sum.splits)
  note ga = tf_gather_Inr[OF a] and gb = tf_gather_Inr[OF b] and sd = tf_subtract_Inr[OF d]
  show lr: "length r = length s" using ga(1) gb(1) sd(2) by simp
  show "length d = length s" using ga(1) gb(1) sd lr by simp
  show "k < length s \<Longrightarrow> d ! k = map2 (-) (p ! nat (s ! k)) (p ! nat (r ! k))"
    using ga(1) gb(1) sd lr by simp
  show "list_all (\<lambda>i. 0 \<le> i \<and> i < int (length p)) s" by (rule ga(2))
  show "list_all (\<lambda>i. 0 \<le> i \<and> i < int (length p)) r" by (rule gb(2))
qed

lemma relative_pos_ok:
  assumes p: "has_shape n k p" and l: "length s = length r"
    and s: "list_all (\<lambda>i. 0 \<le> i \<and> i < int n) s" and r: "list_all (\<lambda>i. 0 \<le> i \<and> i < int n) r"
  shows "\<exists>d. relative_pos p s r = Inr d \<and> has_shape (length s) k d"
proof -
  have n: "length p = n" using p by (rule has_shape_length)
  let ?a = "map (\<lambda>i. p ! nat i) s" and ?b = "map (\<lambda>i. p ! nat i) r"
  have a: "has_shape (length s) k ?a"
    using s p by (auto simp: has_shape_def list_all_length)
  have b: "has_shape (length s) k ?b"
    using r p l by (auto simp: has_shape_def list_all_length)
  have ss: "same_shape ?a ?b" using a b by (rule same_shape_has_shape)
  have "relative_pos p s r = Inr (map2 (map2 (-)) ?a ?b)"
    using s r n ss by (simp add: relative_pos_def tf_gather_ok tf_subtract_def)
  moreover have "has_shape (length s) k (map2 (map2 (-)) ?a ?b)"
    using a b l by (auto simp: has_shape_def list_all_length)
  ultimately show ?thesis by blast
qed

lemma edge_features_raw_Inr:
  assumes "edge_features_raw inp s r = Inr ef"
  shows "length r = length s" and "length ef = length s"
    and "k < length s \<Longrightarrow> ef ! k = edge_row inp (s ! k) (r ! k)"
proof -
  from assms obtain dw dm where dw: "relative_pos (world_pos inp) s r = Inr dw"
    and dm: "relative_pos (mesh_pos inp) s r = Inr dm"
    and ef: "tf_concat [dw, tf_norm dw, dm, tf_norm dm] = Inr ef"
    by (auto simp: edge_features_raw_def split: sum.splits)
  note w = relative_pos_Inr[OF dw] and m = relative_pos_Inr[OF dm]
  have efc: "ef = map2 (@) dw (map2 (@) (tf_norm dw) (map2 (@) dm (tf_norm dm)))"
    using tf_concat_Inr(1)[OF ef] by simp
  show "length r = length s" by (rule w(1))
  show "length ef = length s" using efc w(2) m(2) by (simp add: tf_norm_def)
  show "k < length s \<Longrightarrow> ef ! k = edge_row inp (s ! k) (r ! k)"
    using efc w(2,3) m(2,3) by (simp add: tf_norm_def edge_row_def Let_def)
qed

lemma edge_row_spec:
  assumes "length (world_pos inp ! nat i) = 3" "length (world_pos inp ! nat j) = 3"
    "length (mesh_pos inp ! nat i) = 3" "length (mesh_pos inp ! nat j) = 3"
  shows "edge_row inp i j = edge_vector_spec (world_pos inp) (mesh_pos inp) (nat i) (nat j)"
proof -
  have sub: "\<And>a b::real list. length a = 3 \<Longrightarrow> length b = 3 \<Longrightarrow>
      map2 (-) a b = [a ! 0 - b ! 0, a ! 1 - b ! 1, a ! 2 - b ! 2]"
  proof -
    fix a b :: "real list" assume "length a = 3" "length b = 3"
    then obtain a0 a1 a2 b0 b1 b2 where "a = [a0, a1, a2]" "b = [b0, b1, b2]"
      by (auto simp: numeral_3_eq_3 length_Suc_conv)
    then show "map2 (-) a b = [a ! 0 - b ! 0, a ! 1 - b ! 1, a ! 2 - b ! 2]" by simp
  qed
  show ?thesis
    by (simp add: edge_row_def edge_vector_spec_def Let_def sub[OF assms(1,2)] sub[OF assms(3,4)])
qed

lemma well_formedD:
  assumes "well_formed E inp" and "triangles_to_edges E (cells inp) = (s, r)"
  shows "has_shape (length (world_pos inp)) 3 (world_pos inp)"
    and "has_shape (length (world_pos inp)) 3 (mesh_pos inp)"
    and "length (node_type inp) = length (world_pos inp)"
    and "list_all (\<lambda>row. row \<noteq> []) (node_type inp)"
    and "length s = length r"
    and "list_all (\<lambda>i. 0 \<le> i \<and> i < int (length (world_pos inp))) s"
    and "list_all (\<lambda>i. 0 \<le> i \<and> i < int (length (world_pos inp))) r"
  using assms by (auto simp: well_formed_def Let_def)

lemma edge_features_raw_ok:
  assumes "well_formed E inp" and "triangles_to_edges E (cells inp) = (s, r)"
  shows "\<exists>ef. edge_features_raw inp s r = Inr ef"
proof -
  let ?n = "length (world_pos inp)"
  from assms have w: "has_shape ?n 3 (world_pos inp)" and m: "has_shape ?n 3 (mesh_pos inp)"
    and l: "length s = length r"
    and s: "list_all (\<lambda>i. 0 \<le> i \<and> i < int ?n) s" and r: "list_all (\<lambda>i. 0 \<le> i \<and> i < int ?n) r"
    by (auto simp: well_formed_def Let_def)
  from relative_pos_ok[OF w l s r] obtain dw where dw: "relative_pos (world_pos inp) s r = Inr dw"
    and sw: "has_shape (length s) 3 dw" by blast
  from relative_pos_ok[OF m l s r] obtain dm where dm: "relative_pos (mesh_pos inp) s r = Inr dm"
    and sm: "has_shape (length s) 3 dm" by blast
  show ?thesis using dw dm sw sm
    by (simp add: edge_features_raw_def tf_concat_def tf_norm_def has_shape_def)
qed

lemma node_features_raw_ok:
  assumes "length (node_type inp) = length (world_pos inp)"
    and "list_all (\<lambda>row. row \<noteq> []) (node_type inp)"
  shows "node_features_raw E inp =
           Inr (map2 (@) (tf_zeros_like (world_pos inp))
                         (tf_one_hot (map hd (node_type inp)) (NodeType_SIZE E)))"
  using assms
  by (simp add: node_features_raw_def column0_def tf_concat_def tf_zeros_like_def tf_one_hot_def)

lemma node_features_raw_Inr:
  assumes "node_features_raw E inp = Inr nf"
  shows "nf = map2 (@) (tf_zeros_like (world_pos inp))
                         (tf_one_hot (map hd (node_type inp)) (NodeType_SIZE E))"
    and "length (node_type inp) = length (world_pos inp)"
    and "list_all (\<lambda>row. row \<noteq> []) (node_type inp)"
  using assms
  by (auto simp: node_features_raw_def column0_def tf_concat_def tf_zeros_like_def tf_one_hot_def
      split: if_splits sum.splits)

lemma build_graph_eq:
  assumes nf: "node_features_raw E inp = Inr nf"
    and te: "triangles_to_edges E (cells inp) = (s, r)"
    and ef: "edge_features_raw inp s r = Inr ef"
  shows "build_graph E M inp tr =
     (Inr \<lparr>node_features = snd (Normalizer_call E (node_normalizer M) nf (Some tr)),
           edge_sets = [\<lparr>name = ''mesh_edges'',
                         features = snd (Normalizer_call E (edge_normalizer M) ef (Some tr)),
                         receivers = r, senders = s\<rparr>]\<rparr>,
      M\<lparr>edge_normalizer := fst (Normalizer_call E (edge_normalizer M) ef (Some tr)),
        node_normalizer := fst (Normalizer_call E (node_normalizer M) nf (Some tr))\<rparr>)"
  using assms by (simp add: build_graph_def Let_def split: prod.splits)

lemma build_graph_node_features:
  assumes "build_graph E M inp tr = (Inr g, M')"
  shows "\<exists>nf. node_features_raw E inp = Inr nf \<and>
           node_features g = snd (Normalizer_call E (node_normalizer M) nf (Some tr))"
  using assms by (auto simp: build_graph_def Let_def split: prod.splits sum.splits)

lemma build_graph_keeps:
  assumes "build_graph E M inp tr = (x, M1)"
  shows "learned_model M1 = learned_model M" and "output_normalizer M1 = output_normalizer M"
  using assms by (auto simp: build_graph_def Let_def split: sum.splits prod.splits)

lemma build_graph_frozen_state: "snd (build_graph E M inp False) = M"
  by (simp add: build_graph_def Normalizer_call_def Let_def split: prod.splits sum.splits)

lemma build_graph_ok:
  assumes wf: "well_formed E inp"
  obtains nf ef s r where
    "triangles_to_edges E (cells inp) = (s, r)"
    "node_features_raw E inp = Inr nf"
    "edge_features_raw inp s r = Inr ef"
    "build_graph E M inp tr =
     (Inr \<lparr>node_features = snd (Normalizer_call E (node_normalizer M) nf (Some tr)),
           edge_sets = [\<lparr>name = ''mesh_edges'',
                         features = snd (Normalizer_call E (edge_normalizer M) ef (Some tr)),
                         receivers = r, senders = s\<rparr>]\<rparr>,
      M\<lparr>edge_normalizer := fst (Normalizer_call E (edge_normalizer M) ef (Some tr)),
        node_normalizer := fst (Normalizer_call E (node_normalizer M) nf (Some tr))\<rparr>)"
proof -
  obtain s r where te: "triangles_to_edges E (cells inp) = (s, r)" by (cases "triangles_to_edges E (cells inp)")
  note d = well_formedD[OF wf te]
  from edge_features_raw_ok[OF wf te] obtain ef where ef: "edge_features_raw inp s r = Inr ef" ..
  have nf: "node_features_raw E inp = Inr (map2 (@) (tf_zeros_like (world_pos inp))
                         (tf_one_hot (map hd (node_type inp)) (NodeType_SIZE E)))"
    using d(3,4) by (rule node_features_raw_ok)
  show thesis using that[OF te nf ef build_graph_eq[OF nf te ef]] .
qed

lemma build_state: "snd (build E M inp) = M"
  using build_graph_frozen_state[of E M inp]
  by (auto simp: build_def Let_def split: prod.splits sum.splits)

lemma build_value:
  assumes g: "build_graph E M inp False = (Inr g, M1)"
    and "has_shape n 3 (world_pos inp)"
    and "has_shape n 3 (Normalizer_inverse E (output_normalizer M) (learned_model M g))"
  shows "fst (build E M inp) =
           Inr (map2 (map2 (+)) (world_pos inp)
                  (Normalizer_inverse E (output_normalizer M) (learned_model M g)))"
  using assms build_graph_keeps[OF g] by (simp add: build_def update_def Let_def tf_add_rows)

lemma loss_returns:
  assumes wf: "well_formed E inp"
    and tg: "target_world_pos inp = Some target"
    and ts: "has_shape (length (world_pos inp)) 3 target"
    and g: "build_graph E M inp True = (Inr g, M1)"
    and tn: "has_shape (length (world_pos inp)) 3
               (snd (Normalizer_call E (output_normalizer M)
                       (map2 (map2 (-)) target (world_pos inp)) None))"
    and out: "has_shape (length (world_pos inp)) 3 (learned_model M g)"
  shows "\<exists>v. loss E M inp =
           (Inr v, M1\<lparr>output_normalizer :=
                        fst (Normalizer_call E (output_normalizer M)
                               (map2 (map2 (-)) target (world_pos inp)) None)\<rparr>)"
proof -
  let ?n = "length (world_pos inp)"
  let ?td = "map2 (map2 (-)) target (world_pos inp)"
  let ?tn = "snd (Normalizer_call E (output_normalizer M) ?td None)"
  let ?out = "learned_model M g"
  note k = build_graph_keeps[OF g]
  obtain s r where te: "triangles_to_edges E (cells inp) = (s, r)"
    by (cases "triangles_to_edges E (cells inp)")
  note d = well_formedD[OF wf te]
  have sub: "tf_subtract target (world_pos inp) = Inr ?td"
    using ts d(1) by (simp add: tf_subtract_def same_shape_has_shape)
  have col: "column0 (node_type inp) = Inr (map hd (node_type inp))"
    using d(4) by (simp add: column0_def)
  have sub2: "tf_subtract ?tn ?out = Inr (map2 (map2 (-)) ?tn ?out)"
    using tn out by (simp add: tf_subtract_def same_shape_has_shape)
  have lc: "length (map hd (node_type inp)) = ?n" using d(3) by simp
  note ml = masked_loss[OF tn out lc, of "NodeType_NORMAL E"]
  show ?thesis
    using g k tg sub col sub2 ml
    by (simp add: loss_def Let_def case_prod_beta)
qed

subsection \<open>The concrete mesh, evaluated\<close>

lemma ex_wf: "well_formed example_modules example_inputs"
  by (simp add: well_formed_def example_modules_def example_inputs_def has_shape_def)

lemma ex_te: "triangles_to_edges example_modules (cells example_inputs) = ([0,1,2,1,2,0],[1,2,0,0,1,2])"
  by (simp add: example_modules_def example_inputs_def)

lemma ex_nf: "node_features_raw example_modules example_inputs = 
   Inr [[0, 0, 0, 1, 0, 0, 0, 0, 0, 0, 0, 0], [0, 0, 0, 1, 0, 0, 0, 0, 0, 0, 0, 0],
      [0, 0, 0, 0, 1, 0, 0, 0, 0, 0, 0, 0]]"
  by (simp add: node_features_raw_def column0_def tf_one_hot_def tf_concat_def tf_zeros_like_def example_modules_def example_inputs_def upt_rec)

lemma ex_normalize:
  "snd (Normalizer_call example_modules st x acc) = map (map (\<lambda>v. v / 2)) x"
  by (simp add: Normalizer_call_def example_modules_def split: option.splits)

lemma ex_graph_nodes:
  assumes "build_graph example_modules example_model example_inputs tr = (Inr g, M')"
  shows "node_features g =
           [[0, 0, 0, 1 / 2, 0, 0, 0, 0, 0, 0, 0, 0], [0, 0, 0, 1 / 2, 0, 0, 0, 0, 0, 0, 0, 0],
            [0, 0, 0, 0, 1 / 2, 0, 0, 0, 0, 0, 0, 0]]"
proof -
  from build_graph_node_features[OF assms] ex_nf
  have "node_features g = map (map (\<lambda>v. v / 2))
          [[0, 0, 0, 1, 0, 0, 0, 0, 0, 0, 0, 0], [0, 0, 0, 1, 0, 0, 0, 0, 0, 0, 0, 0],
           [0, 0, 0, 0, 1, 0, 0, 0, 0, 0, 0, 0]]"
    by (auto simp: ex_normalize)
  then show ?thesis by simp
qed

lemma ex_network_output:
  assumes "build_graph example_modules example_model example_inputs tr = (Inr g, M')"
  shows "learned_model example_model g = [[1 / 2, 0, 1], [1 / 2, 0, 1], [0, 1 / 2, 1]]"
  using ex_graph_nodes[OF assms] by (simp add: example_model_def)

lemma ex_target:
  "target_world_pos example_inputs = Some [[0, 0, 1], [3, 4, 1], [0, 1, 0]]"
  "has_shape (length (world_pos example_inputs)) 3 ([[0, 0, 1], [3, 4, 1], [0, 1, 0]] :: tensor)"
  by (simp_all add: example_inputs_def has_shape_def)

lemma ex_target_normalized:
  "snd (Normalizer_call example_modules st
          (map2 (map2 (-)) [[0, 0, 1], [3, 4, 1], [0, 1, 0]] (world_pos example_inputs)) acc) =
     [[0, 0, 1 / 2], [0, 0, 1 / 2], [0, 0, 0]]"
  by (simp add: ex_normalize example_inputs_def)

lemma ex_wf_no_normal: "well_formed example_modules example_inputs_no_normal"
  by (simp add: well_formed_def example_modules_def example_inputs_def
      example_inputs_no_normal_def has_shape_def)

lemma ex_target_no_normal:
  "target_world_pos example_inputs_no_normal = Some [[0, 0, 1], [3, 4, 1], [0, 1, 0]]"
  "has_shape (length (world_pos example_inputs_no_normal)) 3
     ([[0, 0, 1], [3, 4, 1], [0, 1, 0]] :: tensor)"
  by (simp_all add: example_inputs_def example_inputs_no_normal_def has_shape_def)

lemma ex_no_normal:
  "list_all (\<lambda>row. hd row \<noteq> NodeType_NORMAL example_modules) (node_type example_inputs_no_normal)"
  by (simp add: example_inputs_no_normal_def example_modules_def)

subsection \<open>The claims\<close>

text \<open>Claim C1. On a well-formed input record (in particular \<open>world_pos\<close> of shape
  \<open>[num_nodes, 3]\<close>), Predict builds the graph in non-training mode, which succeeds and
  leaves the model as it was; it runs the learned model on that graph and
  inverse-normalizes the output through the output normalizer. When this displacement has
  the shape \<open>[num_nodes, 3]\<close> that the learned model's contract promises, Predict returns
  \<open>world_pos + displacement\<close>, again of shape \<open>[num_nodes, 3]\<close>. The result is a tensor:
  no loss is computed on this path.\<close>

theorem Predict_returns_world_pos_plus_displacement:
  assumes wf: "well_formed E inp"
  shows "\<exists>g. fst (build_graph E M inp False) = Inr g \<and>
           (let displacement = Normalizer_inverse E (output_normalizer M) (learned_model M g);
                n = length (world_pos inp)
            in has_shape n 3 displacement \<longrightarrow>
                 fst (build E M inp) = Inr (map2 (map2 (+)) (world_pos inp) displacement) \<and>
                 has_shape n 3 (map2 (map2 (+)) (world_pos inp) displacement))"
proof -
  from build_graph_ok[OF wf, of M False]
  obtain g M1 where g: "build_graph E M inp False = (Inr g, M1)"
    by metis
  have w: "has_shape (length (world_pos inp)) 3 (world_pos inp)"
    using wf by (cases "triangles_to_edges E (cells inp)") (auto dest: well_formedD)
  have "fst (build_graph E M inp False) = Inr g" using g by simp
  moreover have "fst (build E M inp) =
      Inr (map2 (map2 (+)) (world_pos inp)
             (Normalizer_inverse E (output_normalizer M) (learned_model M g)))"
    if "has_shape (length (world_pos inp)) 3
          (Normalizer_inverse E (output_normalizer M) (learned_model M g))"
    using g w that by (rule build_value)
  ultimately show ?thesis using w by (auto simp: Let_def has_shape_map2)
qed

text \<open>On the concrete mesh Predict returns the positions \<open>(1,0,2)\<close>, \<open>(4,4,2)\<close>, \<open>(0,2,2)\<close>.\<close>

theorem Predict_returns_world_pos_plus_displacement_witness:
  "well_formed example_modules example_inputs \<and>
   fst (build example_modules example_model example_inputs) =
     Inr [[1, 0, 2], [4, 4, 2], [0, 2, 2]]"
proof -
  from Predict_returns_world_pos_plus_displacement[OF ex_wf, of example_model]
  obtain g where g: "fst (build_graph example_modules example_model example_inputs False) = Inr g"
    and b: "has_shape (length (world_pos example_inputs)) 3
              (Normalizer_inverse example_modules (output_normalizer example_model)
                 (learned_model example_model g)) \<longrightarrow>
            fst (build example_modules example_model example_inputs) =
              Inr (map2 (map2 (+)) (world_pos example_inputs)
                (Normalizer_inverse example_modules (output_normalizer example_model)
                   (learned_model example_model g)))"
    by (auto simp: Let_def)
  from g have g': "build_graph example_modules example_model example_inputs False =
      (Inr g, snd (build_graph example_modules example_model example_inputs False))"
    by (simp add: prod_eq_iff)
  have d: "Normalizer_inverse example_modules (output_normalizer example_model)
             (learned_model example_model g) = [[1, 0, 2], [1, 0, 2], [0, 1, 2]]"
    by (simp add: ex_network_output[OF g'] example_modules_def)
  show ?thesis using b ex_wf by (simp add: d has_shape_def example_inputs_def)
qed

text \<open>Claim C2. On a well-formed training record whose target has shape \<open>[num_nodes, 3]\<close>,
  the graph build in training mode succeeds, and when the normalized target displacement
  (\<open>target|world_pos - world_pos\<close> passed through the output normalizer) and the raw output
  of the learned model both have shape \<open>[num_nodes, 3]\<close>, \<open>loss\<close> returns the mean over
  exactly the nodes whose first \<open>node_type\<close> column is \<open>NodeType.NORMAL\<close> of the squared
  difference of the two, summed over the three components. Other nodes contribute no
  term.\<close>

theorem loss_is_masked_mean_squared_error:
  assumes wf: "well_formed E inp"
    and tg: "target_world_pos inp = Some target"
    and ts: "has_shape (length (world_pos inp)) 3 target"
  shows "\<exists>g M1. build_graph E M inp True = (Inr g, M1) \<and>
           (let target_normalized =
                  snd (Normalizer_call E (output_normalizer M)
                         (map2 (map2 (-)) target (world_pos inp)) None);
                network_output = learned_model M g;
                n = length (world_pos inp)
            in has_shape n 3 target_normalized \<and> has_shape n 3 network_output \<longrightarrow>
                 fst (loss E M inp) =
                   Inr (masked_mean_squared_error (NodeType_NORMAL E) (node_type inp)
                          target_normalized network_output))"
proof -
  let ?n = "length (world_pos inp)"
  from build_graph_ok[OF wf, of M True] obtain g M1 where g: "build_graph E M inp True = (Inr g, M1)"
    by metis
  note k = build_graph_keeps[OF g]
  obtain s r where te: "triangles_to_edges E (cells inp) = (s, r)" by (cases "triangles_to_edges E (cells inp)")
  note d = well_formedD[OF wf te]
  let ?td = "map2 (map2 (-)) target (world_pos inp)"
  let ?tn = "snd (Normalizer_call E (output_normalizer M) ?td None)"
  let ?out = "learned_model M g"
  have sub: "tf_subtract target (world_pos inp) = Inr ?td"
    using ts d(1) by (simp add: tf_subtract_def same_shape_has_shape)
  have col: "column0 (node_type inp) = Inr (map hd (node_type inp))"
    using d(4) by (simp add: column0_def)
  have "fst (loss E M inp) =
          Inr (masked_mean_squared_error (NodeType_NORMAL E) (node_type inp) ?tn ?out)"
    if tn: "has_shape ?n 3 ?tn" and out: "has_shape ?n 3 ?out"
  proof -
    have sub2: "tf_subtract ?tn ?out = Inr (map2 (map2 (-)) ?tn ?out)"
      using tn out by (simp add: tf_subtract_def same_shape_has_shape)
    have lc: "length (map hd (node_type inp)) = ?n" using d(3) by simp
    note ml = masked_loss[OF tn out lc, of "NodeType_NORMAL E"]
    have filt: "filter (\<lambda>i. map hd (node_type inp) ! i = NodeType_NORMAL E) [0..<?n] =
                filter (\<lambda>i. hd (node_type inp ! i) = NodeType_NORMAL E) [0..<length (node_type inp)]"
      using d(3) by (intro filter_cong) auto
    have "fst (loss E M inp) = Inr (tf_reduce_mean
            (map (\<lambda>i. \<Sum>c\<leftarrow>[0..<3]. (?tn ! i ! c - ?out ! i ! c)\<^sup>2)
                 (filter (\<lambda>i. hd (node_type inp ! i) = NodeType_NORMAL E) [0..<length (node_type inp)])))"
      using g k tg sub col sub2 ml filt
      by (simp add: loss_def Let_def case_prod_beta)
    then show ?thesis
      by (simp add: masked_mean_squared_error_def tf_reduce_mean_def Let_def)
  qed
  with g show ?thesis by (auto simp: Let_def)
qed

text \<open>On the concrete mesh the two normal nodes have squared error \<open>1/2\<close> each, the third node
  (\<open>5/4\<close>) is masked out, and the loss is \<open>1/2\<close>.\<close>

theorem loss_is_masked_mean_squared_error_witness:
  "well_formed example_modules example_inputs \<and>
   target_world_pos example_inputs = Some [[0, 0, 1], [3, 4, 1], [0, 1, 0]] \<and>
   has_shape (length (world_pos example_inputs)) 3 ([[0, 0, 1], [3, 4, 1], [0, 1, 0]] :: tensor) \<and>
   fst (loss example_modules example_model example_inputs) = Inr (Finite (1 / 2))"
proof -
  from loss_is_masked_mean_squared_error[OF ex_wf ex_target, of example_model]
  obtain g M1 where g: "build_graph example_modules example_model example_inputs True = (Inr g, M1)"
    and l: "has_shape (length (world_pos example_inputs)) 3
              ([[0, 0, 1 / 2], [0, 0, 1 / 2], [0, 0, 0]] :: tensor) \<and>
            has_shape (length (world_pos example_inputs)) 3 (learned_model example_model g) \<longrightarrow>
            fst (loss example_modules example_model example_inputs) =
              Inr (masked_mean_squared_error (NodeType_NORMAL example_modules)
                     (node_type example_inputs) [[0, 0, 1 / 2], [0, 0, 1 / 2], [0, 0, 0]]
                     (learned_model example_model g))"
    by (auto simp: Let_def ex_target_normalized)
  have m: "masked_mean_squared_error (NodeType_NORMAL example_modules)
             (node_type example_inputs) [[0, 0, 1 / 2], [0, 0, 1 / 2], [0, 0, 0]]
             [[1 / 2, 0, 1], [1 / 2, 0, 1], [0, 1 / 2, 1]] = Finite (1 / 2)"
    by (simp add: masked_mean_squared_error_def example_modules_def example_inputs_def upt3
        power2_eq_square)
  have h: "has_shape (length (world_pos example_inputs)) 3
             ([[0, 0, 1 / 2], [0, 0, 1 / 2], [0, 0, 0]] :: tensor)"
    "has_shape (length (world_pos example_inputs)) 3
             ([[1 / 2, 0, 1], [1 / 2, 0, 1], [0, 1 / 2, 1]] :: tensor)"
    by (simp_all add: has_shape_def example_inputs_def)
  show ?thesis
    using l h ex_wf ex_target by (simp add: ex_network_output[OF g] m)
qed

text \<open>Claim C3. On a well-formed input, for the index arrays \<open>(s, r)\<close> the converter returns
  from \<open>cells\<close>, the edge features before normalization exist, have one row per edge, and
  row \<open>k\<close> is the eight scalars \<open>world_pos[s k] - world_pos[r k]\<close>, its Euclidean norm,
  \<open>mesh_pos[s k] - mesh_pos[r k]\<close>, its Euclidean norm, in this order. The graph has exactly
  one edge set; it is named \<open>mesh_edges\<close>, carries the features passed through the edge
  normalizer with the call's training flag, and its senders and receivers are the
  converter's arrays.\<close>

theorem edge_features_are_the_eight_scalars:
  assumes wf: "well_formed E inp"
    and te: "triangles_to_edges E (cells inp) = (s, r)"
  shows "\<exists>ef g M'. edge_features_raw inp s r = Inr ef \<and> length ef = length s \<and>
           (\<forall>k<length s. ef ! k =
               edge_vector_spec (world_pos inp) (mesh_pos inp) (nat (s ! k)) (nat (r ! k))) \<and>
           build_graph E M inp is_training = (Inr g, M') \<and>
           edge_sets g =
             [\<lparr>name = ''mesh_edges'',
               features = snd (Normalizer_call E (edge_normalizer M) ef (Some is_training)),
               receivers = r, senders = s\<rparr>]"
proof -
  note d = well_formedD[OF wf te]
  from build_graph_ok[OF wf, of M is_training] te
  obtain nf ef where ef: "edge_features_raw inp s r = Inr ef"
    and bg: "build_graph E M inp is_training =
     (Inr \<lparr>node_features = snd (Normalizer_call E (node_normalizer M) nf (Some is_training)),
           edge_sets = [\<lparr>name = ''mesh_edges'',
                         features = snd (Normalizer_call E (edge_normalizer M) ef (Some is_training)),
                         receivers = r, senders = s\<rparr>]\<rparr>,
      M\<lparr>edge_normalizer := fst (Normalizer_call E (edge_normalizer M) ef (Some is_training)),
        node_normalizer := fst (Normalizer_call E (node_normalizer M) nf (Some is_training))\<rparr>)"
    by (metis prod.inject)
  note e = edge_features_raw_Inr[OF ef]
  have rows: "ef ! k = edge_vector_spec (world_pos inp) (mesh_pos inp) (nat (s ! k)) (nat (r ! k))"
    if k: "k < length s" for k
  proof -
    have si: "nat (s ! k) < length (world_pos inp)" using d(6) k by (rule valid_index)
    have ri: "nat (r ! k) < length (world_pos inp)" using d(7) k d(5) by (simp add: valid_index)
    show ?thesis
      using e(3)[OF k] has_shape_nth[OF d(1) si] has_shape_nth[OF d(1) ri]
        has_shape_nth[OF d(2) si] has_shape_nth[OF d(2) ri]
      by (simp add: edge_row_spec)
  qed
  show ?thesis using ef e(2) rows bg by auto
qed

text \<open>On the concrete mesh: six directed edges; the edge from node 0 to node 1 and its reverse.\<close>

theorem edge_features_are_the_eight_scalars_witness:
  "well_formed example_modules example_inputs \<and>
   triangles_to_edges example_modules (cells example_inputs) =
     ([0, 1, 2, 1, 2, 0], [1, 2, 0, 0, 1, 2]) \<and>
   (\<exists>ef g M'. edge_features_raw example_inputs [0, 1, 2, 1, 2, 0] [1, 2, 0, 0, 1, 2] = Inr ef \<and>
      length ef = 6 \<and>
      ef ! 0 = [- 3, - 4, 0, 5, - 1, 0, 0, 1] \<and>
      ef ! 3 = [3, 4, 0, 5, 1, 0, 0, 1] \<and>
      build_graph example_modules example_model example_inputs True = (Inr g, M') \<and>
      edge_sets g =
        [\<lparr>name = ''mesh_edges'', features = map (map (\<lambda>v. v / 2)) ef,
          receivers = [1, 2, 0, 0, 1, 2], senders = [0, 1, 2, 1, 2, 0]\<rparr>])"
proof -
  from edge_features_are_the_eight_scalars[OF ex_wf ex_te, of example_model True]
  obtain ef g M' where ef: "edge_features_raw example_inputs [0, 1, 2, 1, 2, 0] [1, 2, 0, 0, 1, 2] = Inr ef"
    and len: "length ef = length [0, 1, 2, 1, 2, 0 :: int]"
    and rows: "\<forall>k<length [0, 1, 2, 1, 2, 0 :: int]. ef ! k =
        edge_vector_spec (world_pos example_inputs) (mesh_pos example_inputs)
          (nat ([0, 1, 2, 1, 2, 0] ! k)) (nat ([1, 2, 0, 0, 1, 2] ! k))"
    and g: "build_graph example_modules example_model example_inputs True = (Inr g, M')"
    and es: "edge_sets g =
        [\<lparr>name = ''mesh_edges'',
          features = snd (Normalizer_call example_modules (edge_normalizer example_model) ef (Some True)),
          receivers = [1, 2, 0, 0, 1, 2], senders = [0, 1, 2, 1, 2, 0]\<rparr>]"
    by blast
  have r0: "ef ! 0 = [- 3, - 4, 0, 5, - 1, 0, 0, 1]"
    using rows by (simp add: edge_vector_spec_def example_inputs_def)
  have r3: "ef ! 3 = [3, 4, 0, 5, 1, 0, 0, 1]"
    using rows by (simp add: edge_vector_spec_def example_inputs_def)
  show ?thesis
    using ex_wf ex_te ef len r0 r3 g es by (simp add: ex_normalize)
qed

text \<open>Claim C4. On a well-formed input the node features before normalization exist, have one
  row per node, and row \<open>i\<close> is three zeros (the velocity placeholder, shaped like
  \<open>world_pos\<close>) followed by the one-hot encoding of the first column of \<open>node_type\<close> over
  \<open>NodeType.SIZE\<close> categories, of width \<open>3 + NodeType.SIZE\<close>. The graph's node features
  are this matrix passed through the node normalizer with the call's training flag, which
  also gives the node normalizer's statistics afterwards.\<close>

theorem node_features_are_velocity_and_one_hot:
  assumes wf: "well_formed E inp"
  shows "\<exists>nf g M'. node_features_raw E inp = Inr nf \<and>
           length nf = length (world_pos inp) \<and>
           (\<forall>i<length (world_pos inp).
               nf ! i = [0, 0, 0] @
                  map (\<lambda>j. if int j = hd (node_type inp ! i) then 1 else 0) [0..<NodeType_SIZE E] \<and>
               length (nf ! i) = 3 + NodeType_SIZE E) \<and>
           build_graph E M inp is_training = (Inr g, M') \<and>
           node_features g = snd (Normalizer_call E (node_normalizer M) nf (Some is_training)) \<and>
           node_normalizer M' = fst (Normalizer_call E (node_normalizer M) nf (Some is_training))"
proof -
  from build_graph_ok[OF wf, of M is_training]
  obtain nf ef s r where te: "triangles_to_edges E (cells inp) = (s, r)"
    and nf: "node_features_raw E inp = Inr nf"
    and bg: "build_graph E M inp is_training =
     (Inr \<lparr>node_features = snd (Normalizer_call E (node_normalizer M) nf (Some is_training)),
           edge_sets = [\<lparr>name = ''mesh_edges'',
                         features = snd (Normalizer_call E (edge_normalizer M) ef (Some is_training)),
                         receivers = r, senders = s\<rparr>]\<rparr>,
      M\<lparr>edge_normalizer := fst (Normalizer_call E (edge_normalizer M) ef (Some is_training)),
        node_normalizer := fst (Normalizer_call E (node_normalizer M) nf (Some is_training))\<rparr>)"
    by metis
  note d = well_formedD[OF wf te]
  note n = node_features_raw_Inr[OF nf]
  have len: "length nf = length (world_pos inp)"
    using n(1,2) by (simp add: tf_zeros_like_def tf_one_hot_def)
  have rows: "nf ! i = [0, 0, 0] @
                  map (\<lambda>j. if int j = hd (node_type inp ! i) then 1 else 0) [0..<NodeType_SIZE E]"
    if i: "i < length (world_pos inp)" for i
  proof -
    have "length (world_pos inp ! i) = 3" using d(1) i by (rule has_shape_nth)
    then have z: "map (\<lambda>_. 0::real) (world_pos inp ! i) = [0, 0, 0]"
      by (auto simp: numeral_3_eq_3 length_Suc_conv)
    show ?thesis using n(1,2) i z by (simp add: tf_zeros_like_def tf_one_hot_def)
  qed
  show ?thesis using nf len rows bg by auto
qed

text \<open>On the concrete mesh: the third node has type 1; in training mode the node normalizer
  has accumulated the three rows.\<close>

theorem node_features_are_velocity_and_one_hot_witness:
  "well_formed example_modules example_inputs \<and>
   (\<exists>nf g M'. node_features_raw example_modules example_inputs = Inr nf \<and>
      length nf = 3 \<and>
      nf ! 2 = [0, 0, 0, 0, 1, 0, 0, 0, 0, 0, 0, 0] \<and> length (nf ! 2) = 3 + 9 \<and>
      build_graph example_modules example_model example_inputs True = (Inr g, M') \<and>
      node_features g = map (map (\<lambda>v. v / 2)) nf \<and>
      count (node_normalizer M') = 3)"
proof -
  from node_features_are_velocity_and_one_hot[OF ex_wf, of example_model True]
  obtain nf g M' where nf: "node_features_raw example_modules example_inputs = Inr nf"
    and len: "length nf = length (world_pos example_inputs)"
    and rows: "\<forall>i<length (world_pos example_inputs).
        nf ! i = [0, 0, 0] @ map (\<lambda>j. if int j = hd (node_type example_inputs ! i) then 1 else 0)
                   [0..<NodeType_SIZE example_modules] \<and>
        length (nf ! i) = 3 + NodeType_SIZE example_modules"
    and g: "build_graph example_modules example_model example_inputs True = (Inr g, M')"
    and nfg: "node_features g =
        snd (Normalizer_call example_modules (node_normalizer example_model) nf (Some True))"
    and st: "node_normalizer M' =
        fst (Normalizer_call example_modules (node_normalizer example_model) nf (Some True))"
    by blast
  have l3: "length nf = 3" using len by (simp add: example_inputs_def)
  have "2 < length (world_pos example_inputs)" by (simp add: example_inputs_def)
  with rows have r2: "nf ! 2 = [0, 0, 0] @ map (\<lambda>j. if int j = hd (node_type example_inputs ! 2) then 1 else 0)
                   [0..<NodeType_SIZE example_modules]"
    and w2: "length (nf ! 2) = 3 + NodeType_SIZE example_modules" by blast+
  have r2': "nf ! 2 = [0, 0, 0, 0, 1, 0, 0, 0, 0, 0, 0, 0]"
    using r2 by (simp add: example_inputs_def example_modules_def upt_rec)
  have w2': "length (nf ! 2) = 3 + 9" using w2 by (simp add: example_modules_def)
  have c: "count (node_normalizer M') = 3"
    using st l3 by (simp add: Normalizer_call_def example_modules_def example_model_def
        example_statistics_def)
  show ?thesis
    using ex_wf nf l3 r2' w2' g nfg c by (simp add: ex_normalize)
qed

text \<open>Claim C5. In \<open>loss\<close> the output normalizer is called on the target displacement with no
  flag at all. On a well-formed training record whose normalized target displacement and
  network output have the shape \<open>[num_nodes, 3]\<close>, \<open>loss\<close> returns a value, and the
  statistics of the output normalizer afterwards are those of an accumulating forward pass
  over \<open>target|world_pos - world_pos\<close>. No training flag occurs in the conditions or in the
  result: the accumulation is not gated by one.\<close>

theorem loss_accumulates_output_statistics:
  assumes wf: "well_formed E inp"
    and tg: "target_world_pos inp = Some target"
    and ts: "has_shape (length (world_pos inp)) 3 target"
  shows "\<exists>g M1. build_graph E M inp True = (Inr g, M1) \<and>
           (let target_displacement = map2 (map2 (-)) target (world_pos inp);
                target_normalized =
                  snd (Normalizer_call E (output_normalizer M) target_displacement None);
                n = length (world_pos inp)
            in has_shape n 3 target_normalized \<and> has_shape n 3 (learned_model M g) \<longrightarrow>
                 (\<exists>v. fst (loss E M inp) = Inr v) \<and>
                 output_normalizer (snd (loss E M inp)) =
                   fst (accumulate_and_normalize E (output_normalizer M) target_displacement))"
proof -
  let ?n = "length (world_pos inp)"
  let ?td = "map2 (map2 (-)) target (world_pos inp)"
  let ?tn = "snd (Normalizer_call E (output_normalizer M) ?td None)"
  from build_graph_ok[OF wf, of M True] obtain g M1 where g: "build_graph E M inp True = (Inr g, M1)"
    by metis
  have "(\<exists>v. fst (loss E M inp) = Inr v) \<and>
        output_normalizer (snd (loss E M inp)) =
          fst (accumulate_and_normalize E (output_normalizer M) ?td)"
    if tn: "has_shape ?n 3 ?tn" and out: "has_shape ?n 3 (learned_model M g)"
  proof -
    from loss_returns[OF wf tg ts g tn out] obtain v where
      l: "loss E M inp =
            (Inr v, M1\<lparr>output_normalizer :=
                         fst (Normalizer_call E (output_normalizer M) ?td None)\<rparr>)" ..
    have "fst (loss E M inp) = Inr v" using l by simp
    moreover have "output_normalizer (snd (loss E M inp)) =
        fst (accumulate_and_normalize E (output_normalizer M) ?td)"
      using l by (simp add: Normalizer_call_def)
    ultimately show ?thesis by blast
  qed
  with g show ?thesis by (auto simp: Let_def)
qed

text \<open>On the concrete mesh \<open>loss\<close> returns and the output normalizer, empty before, has
  accumulated three rows afterwards.\<close>

theorem loss_accumulates_output_statistics_witness:
  "well_formed example_modules example_inputs \<and>
   target_world_pos example_inputs = Some [[0, 0, 1], [3, 4, 1], [0, 1, 0]] \<and>
   has_shape (length (world_pos example_inputs)) 3 ([[0, 0, 1], [3, 4, 1], [0, 1, 0]] :: tensor) \<and>
   count (output_normalizer example_model) = 0 \<and>
   (\<exists>v. fst (loss example_modules example_model example_inputs) = Inr v) \<and>
   count (output_normalizer (snd (loss example_modules example_model example_inputs))) = 3"
proof -
  let ?td = "map2 (map2 (-)) [[0, 0, 1], [3, 4, 1], [0, 1, 0]] (world_pos example_inputs)"
  from loss_accumulates_output_statistics[OF ex_wf ex_target, of example_model]
  obtain g M1 where g: "build_graph example_modules example_model example_inputs True = (Inr g, M1)"
    and l: "has_shape (length (world_pos example_inputs)) 3
              ([[0, 0, 1 / 2], [0, 0, 1 / 2], [0, 0, 0]] :: tensor) \<and>
            has_shape (length (world_pos example_inputs)) 3 (learned_model example_model g) \<longrightarrow>
            (\<exists>v. fst (loss example_modules example_model example_inputs) = Inr v) \<and>
            output_normalizer (snd (loss example_modules example_model example_inputs)) =
              fst (accumulate_and_normalize example_modules (output_normalizer example_model) ?td)"
    by (auto simp: Let_def ex_target_normalized)
  have h: "has_shape (length (world_pos example_inputs)) 3
             ([[0, 0, 1 / 2], [0, 0, 1 / 2], [0, 0, 0]] :: tensor)"
    "has_shape (length (world_pos example_inputs)) 3
             ([[1 / 2, 0, 1], [1 / 2, 0, 1], [0, 1 / 2, 1]] :: tensor)"
    by (simp_all add: has_shape_def example_inputs_def)
  from l h have r: "\<exists>v. fst (loss example_modules example_model example_inputs) = Inr v"
    and st: "output_normalizer (snd (loss example_modules example_model example_inputs)) =
              fst (accumulate_and_normalize example_modules (output_normalizer example_model) ?td)"
    by (simp_all add: ex_network_output[OF g])
  have c0: "count (output_normalizer example_model) = 0"
    by (simp add: example_model_def example_statistics_def)
  have c3: "count (output_normalizer (snd (loss example_modules example_model example_inputs))) = 3"
    unfolding st
    by (simp add: example_modules_def example_model_def example_statistics_def example_inputs_def)
  show ?thesis using ex_wf ex_target c0 r c3 by blast
qed

text \<open>Claim C6. Predict never changes the model: for every input (also one on which it
  fails), every learned model and all statistics of the node, edge and output normalizers,
  the model after \<open>build\<close> is the model before, and so it is after any sequence of Predict
  calls.\<close>

theorem Predict_leaves_the_normalizers_unchanged:
  "snd (build E M inp) = M \<and> foldl (\<lambda>M' i. snd (build E M' i)) M inps = M"
proof
  show "snd (build E M inp) = M" by (rule build_state)
  show "foldl (\<lambda>M' i. snd (build E M' i)) M inps = M"
    by (induction inps) (simp_all add: build_state)
qed

text \<open>Claim C7. On a well-formed training record in which no node's first \<open>node_type\<close> column
  is \<open>NodeType.NORMAL\<close>, the mask selects no node, and \<open>loss\<close> (when the normalized target
  and the network output have shape \<open>[num_nodes, 3]\<close>, so that the reduction is reached)
  returns the mean of an empty selection: NaN. There is no other value for this case.\<close>

theorem loss_without_normal_nodes_is_NaN:
  assumes wf: "well_formed E inp"
    and tg: "target_world_pos inp = Some target"
    and ts: "has_shape (length (world_pos inp)) 3 target"
    and no: "list_all (\<lambda>row. hd row \<noteq> NodeType_NORMAL E) (node_type inp)"
  shows "\<exists>g M1. build_graph E M inp True = (Inr g, M1) \<and>
           (let target_normalized =
                  snd (Normalizer_call E (output_normalizer M)
                         (map2 (map2 (-)) target (world_pos inp)) None);
                n = length (world_pos inp)
            in has_shape n 3 target_normalized \<and> has_shape n 3 (learned_model M g) \<longrightarrow>
                 fst (loss E M inp) = Inr NaN)"
proof -
  from build_graph_ok[OF wf, of M True] obtain g M1 where g: "build_graph E M inp True = (Inr g, M1)"
    by metis
  note k = build_graph_keeps[OF g]
  obtain s r where te: "triangles_to_edges E (cells inp) = (s, r)" by (cases "triangles_to_edges E (cells inp)")
  note d = well_formedD[OF wf te]
  let ?td = "map2 (map2 (-)) target (world_pos inp)"
  let ?tn = "snd (Normalizer_call E (output_normalizer M) ?td None)"
  let ?out = "learned_model M g"
  have sub: "tf_subtract target (world_pos inp) = Inr ?td"
    using ts d(1) by (simp add: tf_subtract_def same_shape_has_shape)
  have col: "column0 (node_type inp) = Inr (map hd (node_type inp))"
    using d(4) by (simp add: column0_def)
  have empty: "filter snd (zip v (tf_equal (map hd (node_type inp)) (NodeType_NORMAL E))) = []" for v :: "real list"
    using no by (auto simp: filter_empty_conv tf_equal_def list_all_iff dest!: set_zip_rightD)
  have "fst (loss E M inp) = Inr NaN"
    if tn: "has_shape (length (world_pos inp)) 3 ?tn" and out: "has_shape (length (world_pos inp)) 3 ?out"
  proof -
    have sub2: "tf_subtract ?tn ?out = Inr (map2 (map2 (-)) ?tn ?out)"
      using tn out by (simp add: tf_subtract_def same_shape_has_shape)
    have ln: "length ?tn = length (world_pos inp)" "length ?out = length (world_pos inp)"
      using tn out by (simp_all add: has_shape_def)
    have bm: "boolean_mask (tf_reduce_sum (tf_square (map2 (map2 (-)) ?tn ?out)))
                (tf_equal (map hd (node_type inp)) (NodeType_NORMAL E)) = Inr []"
      using ln d(3) empty
      by (simp add: boolean_mask_def tf_reduce_sum_def tf_square_def tf_equal_def)
    show ?thesis
      using g k tg sub col sub2 bm
      by (simp add: loss_def Let_def case_prod_beta tf_reduce_mean_def)
  qed
  with g show ?thesis by (auto simp: Let_def)
qed

text \<open>The concrete mesh with node types 1, 1, 3.\<close>

theorem loss_without_normal_nodes_is_NaN_witness:
  "well_formed example_modules example_inputs_no_normal \<and>
   target_world_pos example_inputs_no_normal = Some [[0, 0, 1], [3, 4, 1], [0, 1, 0]] \<and>
   has_shape (length (world_pos example_inputs_no_normal)) 3
     ([[0, 0, 1], [3, 4, 1], [0, 1, 0]] :: tensor) \<and>
   list_all (\<lambda>row. hd row \<noteq> NodeType_NORMAL example_modules)
     (node_type example_inputs_no_normal) \<and>
   fst (loss example_modules example_model example_inputs_no_normal) = Inr NaN"
proof -
  let ?n = "length (world_pos example_inputs_no_normal)"
  let ?tn = "snd (Normalizer_call example_modules (output_normalizer example_model)
                (map2 (map2 (-)) [[0, 0, 1], [3, 4, 1], [0, 1, 0]]
                   (world_pos example_inputs_no_normal)) None)"
  from loss_without_normal_nodes_is_NaN[OF ex_wf_no_normal ex_target_no_normal ex_no_normal,
      of example_model]
  obtain g M1 where g: "build_graph example_modules example_model example_inputs_no_normal True =
        (Inr g, M1)"
    and l: "has_shape ?n 3 ?tn \<and> has_shape ?n 3 (learned_model example_model g) \<longrightarrow>
            fst (loss example_modules example_model example_inputs_no_normal) = Inr NaN"
    by (auto simp: Let_def)
  have tn: "has_shape ?n 3 ?tn"
    by (simp add: ex_normalize has_shape_def example_inputs_def example_inputs_no_normal_def)
  from build_graph_node_features[OF g] obtain nf
    where nf: "node_features_raw example_modules example_inputs_no_normal = Inr nf"
      and ng: "node_features g = map (map (\<lambda>v. v / 2)) nf"
    by (auto simp: ex_normalize)
  have "length nf = ?n"
    using node_features_raw_Inr[OF nf] by (simp add: tf_zeros_like_def tf_one_hot_def)
  then have out: "has_shape ?n 3 (learned_model example_model g)"
    using ng by (simp add: example_model_def has_shape_def list_all_iff)
  show ?thesis
    using l tn out ex_wf_no_normal ex_target_no_normal ex_no_normal by simp
qed

text \<open>Claim C8. For an edge \<open>k\<close> whose sender is at world position \<open>(0,0,0)\<close> and whose
  receiver is at \<open>(3,4,0)\<close>, or the other way round, component 3 of the edge's feature
  vector before normalization (the norm of the relative world position) is 5.\<close>

theorem relative_world_pos_norm_is_5:
  assumes wf: "well_formed E inp"
    and te: "triangles_to_edges E (cells inp) = (s, r)"
    and k: "k < length s"
    and pos: "world_pos inp ! nat (s ! k) = [0, 0, 0] \<and> world_pos inp ! nat (r ! k) = [3, 4, 0] \<or>
              world_pos inp ! nat (s ! k) = [3, 4, 0] \<and> world_pos inp ! nat (r ! k) = [0, 0, 0]"
  shows "\<exists>ef. edge_features_raw inp s r = Inr ef \<and> ef ! k ! 3 = 5"
proof -
  from edge_features_raw_ok[OF wf te] obtain ef where ef: "edge_features_raw inp s r = Inr ef" ..
  have "ef ! k = edge_row inp (s ! k) (r ! k)" using ef k by (rule edge_features_raw_Inr(3))
  then have "ef ! k ! 3 = 5" using pos by (auto simp: edge_row_def Let_def)
  with ef show ?thesis by blast
qed

text \<open>Edge 0 of the concrete mesh goes from \<open>(0,0,0)\<close> to \<open>(3,4,0)\<close>.\<close>

theorem relative_world_pos_norm_is_5_witness:
  "well_formed example_modules example_inputs \<and>
   triangles_to_edges example_modules (cells example_inputs) =
     ([0, 1, 2, 1, 2, 0], [1, 2, 0, 0, 1, 2]) \<and>
   world_pos example_inputs ! nat ([0, 1, 2, 1, 2, 0] ! 0) = [0, 0, 0] \<and>
   world_pos example_inputs ! nat ([1, 2, 0, 0, 1, 2] ! 0) = [3, 4, 0] \<and>
   (\<exists>ef. edge_features_raw example_inputs [0, 1, 2, 1, 2, 0] [1, 2, 0, 0, 1, 2] = Inr ef \<and>
         ef ! 0 ! 3 = 5)"
proof -
  have p: "world_pos example_inputs ! nat ([0, 1, 2, 1, 2, 0] ! 0) = [0, 0, 0]"
    "world_pos example_inputs ! nat ([1, 2, 0, 0, 1, 2] ! 0) = [3, 4, 0]"
    by (simp_all add: example_inputs_def)
  have k: "0 < length [0, 1, 2, 1, 2, 0 :: int]" by simp
  from relative_world_pos_norm_is_5[OF ex_wf ex_te k] p
  have "\<exists>ef. edge_features_raw example_inputs [0, 1, 2, 1, 2, 0] [1, 2, 0, 0, 1, 2] = Inr ef \<and>
         ef ! 0 ! 3 = 5" by blast
  then show ?thesis using ex_wf ex_te p by blast
qed

text \<open>Claim C9. \<open>update\<close> does not read \<open>node_type\<close>: replacing the node types changes nothing
  in its result. Hence for every node \<open>i\<close> of a well-formed input, of whatever type, the
  position Predict returns for \<open>i\<close> is \<open>world_pos[i]\<close> plus the displacement predicted for
  \<open>i\<close>.\<close>

theorem update_adds_displacement_to_every_node:
  assumes wf: "well_formed E inp"
    and i: "i < length (world_pos inp)"
  shows "update E M (inp\<lparr>node_type := other_types\<rparr>) out = update E M inp out \<and>
         (\<exists>g. fst (build_graph E M inp False) = Inr g \<and>
           (let displacement = Normalizer_inverse E (output_normalizer M) (learned_model M g)
            in has_shape (length (world_pos inp)) 3 displacement \<longrightarrow>
                 (\<exists>new_position. fst (build E M inp) = Inr new_position \<and>
                    new_position ! i = map2 (+) (world_pos inp ! i) (displacement ! i))))"
proof
  show "update E M (inp\<lparr>node_type := other_types\<rparr>) out = update E M inp out"
    by (simp add: update_def)
next
  from build_graph_ok[OF wf, of M False]
  obtain g M1 where g: "build_graph E M inp False = (Inr g, M1)"
    by metis
  have w: "has_shape (length (world_pos inp)) 3 (world_pos inp)"
    using wf by (cases "triangles_to_edges E (cells inp)") (auto dest: well_formedD)
  let ?d = "Normalizer_inverse E (output_normalizer M) (learned_model M g)"
  have "\<exists>new_position. fst (build E M inp) = Inr new_position \<and>
          new_position ! i = map2 (+) (world_pos inp ! i) (?d ! i)"
    if d: "has_shape (length (world_pos inp)) 3 ?d"
  proof -
    have "fst (build E M inp) = Inr (map2 (map2 (+)) (world_pos inp) ?d)"
      using g w d by (rule build_value)
    moreover have "map2 (map2 (+)) (world_pos inp) ?d ! i = map2 (+) (world_pos inp ! i) (?d ! i)"
      using i d by (simp add: has_shape_def)
    ultimately show ?thesis by simp
  qed
  moreover have "fst (build_graph E M inp False) = Inr g" using g by simp
  ultimately show "\<exists>g. fst (build_graph E M inp False) = Inr g \<and>
           (let displacement = Normalizer_inverse E (output_normalizer M) (learned_model M g)
            in has_shape (length (world_pos inp)) 3 displacement \<longrightarrow>
                 (\<exists>new_position. fst (build E M inp) = Inr new_position \<and>
                    new_position ! i = map2 (+) (world_pos inp ! i) (displacement ! i)))"
    by (auto simp: Let_def)
qed

text \<open>Node 2 of the concrete mesh is not a normal node (it is masked out of the loss), and
  Predict moves it from \<open>(0,1,0)\<close> to \<open>(0,2,2)\<close>.\<close>

theorem update_adds_displacement_to_every_node_witness:
  "well_formed example_modules example_inputs \<and>
   2 < length (world_pos example_inputs) \<and>
   hd (node_type example_inputs ! 2) \<noteq> NodeType_NORMAL example_modules \<and>
   world_pos example_inputs ! 2 = [0, 1, 0] \<and>
   (\<exists>new_position. fst (build example_modules example_model example_inputs) = Inr new_position \<and>
      new_position ! 2 = [0, 2, 2])"
proof -
  have i: "2 < length (world_pos example_inputs)" by (simp add: example_inputs_def)
  from update_adds_displacement_to_every_node[OF ex_wf i, of example_model, THEN conjunct2]
  obtain g where g: "fst (build_graph example_modules example_model example_inputs False) = Inr g"
    and b: "has_shape (length (world_pos example_inputs)) 3
              (Normalizer_inverse example_modules (output_normalizer example_model)
                 (learned_model example_model g)) \<longrightarrow>
            (\<exists>new_position. fst (build example_modules example_model example_inputs) = Inr new_position \<and>
               new_position ! 2 = map2 (+) (world_pos example_inputs ! 2)
                 (Normalizer_inverse example_modules (output_normalizer example_model)
                    (learned_model example_model g) ! 2))"
    by (auto simp: Let_def)
  from g have g': "build_graph example_modules example_model example_inputs False =
      (Inr g, snd (build_graph example_modules example_model example_inputs False))"
    by (simp add: prod_eq_iff)
  have d: "Normalizer_inverse example_modules (output_normalizer example_model)
             (learned_model example_model g) = [[1, 0, 2], [1, 0, 2], [0, 1, 2]]"
    by (simp add: ex_network_output[OF g'] example_modules_def)
  have h: "has_shape (length (world_pos example_inputs)) 3 ([[1, 0, 2], [1, 0, 2], [0, 1, 2]] :: tensor)"
    by (simp add: has_shape_def example_inputs_def)
  have w: "world_pos example_inputs ! 2 = [0, 1, 0]" by (simp add: example_inputs_def)
  have t: "hd (node_type example_inputs ! 2) \<noteq> NodeType_NORMAL example_modules"
    by (simp add: example_inputs_def example_modules_def)
  from b h have "\<exists>new_position. fst (build example_modules example_model example_inputs) = Inr new_position \<and>
      new_position ! 2 = [0, 2, 2]"
    by (simp add: d w)
  then show ?thesis using ex_wf i t w by blast
qed

text \<open>Claim C10. Two input records that agree on \<open>world_pos\<close>, \<open>mesh_pos\<close>, \<open>node_type\<close> and
  \<open>cells\<close> give the same Predict result and the same model afterwards, whatever their
  \<open>target|world_pos\<close> entries are and whether they are present.\<close>

theorem Predict_ignores_target_world_pos:
  assumes "world_pos a = world_pos b" and "mesh_pos a = mesh_pos b"
    and "node_type a = node_type b" and "cells a = cells b"
  shows "build E M a = build E M b"
proof -
  have nf: "node_features_raw E a = node_features_raw E b"
    unfolding node_features_raw_def assms(1,3) by (rule refl)
  have ef: "edge_features_raw a = edge_features_raw b"
    unfolding edge_features_raw_def assms(1,2) by (rule refl)
  have up: "update E M' a = update E M' b" for M'
    unfolding update_def assms(1) by (rule refl)
  have bg: "build_graph E M a False = build_graph E M b False"
    unfolding build_graph_def nf ef assms(4) by (rule refl)
  show ?thesis
    unfolding build_def bg up by (rule refl)
qed

text \<open>The concrete record with and without its target.\<close>

theorem Predict_ignores_target_world_pos_witness:
  "world_pos example_inputs = world_pos (example_inputs\<lparr>target_world_pos := None\<rparr>) \<and>
   mesh_pos example_inputs = mesh_pos (example_inputs\<lparr>target_world_pos := None\<rparr>) \<and>
   node_type example_inputs = node_type (example_inputs\<lparr>target_world_pos := None\<rparr>) \<and>
   cells example_inputs = cells (example_inputs\<lparr>target_world_pos := None\<rparr>) \<and>
   target_world_pos example_inputs \<noteq> target_world_pos (example_inputs\<lparr>target_world_pos := None\<rparr>) \<and>
   build example_modules example_model example_inputs =
     build example_modules example_model (example_inputs\<lparr>target_world_pos := None\<rparr>)"
  using Predict_ignores_target_world_pos[of example_inputs "example_inputs\<lparr>target_world_pos := None\<rparr>"
      example_modules example_model]
  by (simp add: example_inputs_def)

end
